theory Spec2Isabelle
  imports Main "HOL-Library.Sublist"
begin

section \<open>The protocol-buffer validator generator: a shallow embedding\<close>

text \<open>
  The sources are three Python files:
  \<^item> \<^verbatim>\<open>scripts/ProtocolBufferValidation/Generator.py\<close>: the class \<^verbatim>\<open>Generator\<close> with the
    method \<^verbatim>\<open>generateValidator\<close> and the static method \<^verbatim>\<open>select\<close>;
  \<^item> \<^verbatim>\<open>scripts/ProtocolBufferValidation/CppGenerator.py\<close>: the subclass \<^verbatim>\<open>CppGenerator\<close>,
    which overrides \<^verbatim>\<open>generateValidator\<close>;
  \<^item> \<^verbatim>\<open>scripts/generate-protobuf-validator.py\<close>: the driver script.

  Exceptions are values of a sum type (\<open>Inl\<close> is the raised exception), printing and the
  calls the driver makes are events appended to a trace that every effectful function
  takes and returns, and the process ends in an outcome (an exit status or an uncaught
  exception).
\<close>

subsection \<open>Strings\<close>

text \<open>
  A Python \<^verbatim>\<open>str\<close> is a sequence of Unicode code points. It is modelled as a
  \<^typ>\<open>string\<close>, where a \<^typ>\<open>char\<close> is a code point below 256 (\<open>of_char\<close> gives the code
  point); strings that hold a code point from 256 on are outside this type.

  On these code points \<^verbatim>\<open>str.lower()\<close> works code point by code point and is Unicode's
  mapping: the letters \<^verbatim>\<open>A\<close> to \<^verbatim>\<open>Z\<close> (65 to 90) and the capital letters of the Latin-1
  supplement (192 to 214 and 216 to 222; 215 is the multiplication sign) go to the code
  point 32 higher, and every other code point stays as it is, the small letters 181, 223
  and 255 included, whose capital forms are not below 256.
\<close>

definition lower_char :: "char \<Rightarrow> char" where
  "lower_char c =
     (let n = (of_char c :: nat) in
      if (65 \<le> n \<and> n \<le> 90) \<or> (192 \<le> n \<and> n \<le> 214) \<or> (216 \<le> n \<and> n \<le> 222)
      then char_of (n + 32) else c)"

definition lower :: "string \<Rightarrow> string" where
  "lower s = map lower_char s"

text \<open>The format \<^verbatim>\<open>"\"%s\"" % s\<close>: the string between two double quotes (code 0x22).\<close>

definition quoted :: "string \<Rightarrow> string" where
  "quoted s = [CHR 0x22] @ s @ [CHR 0x22]"

text \<open>The format \<^verbatim>\<open>"%d" % i\<close>: the decimal digits of an integer, with its sign.\<close>

fun show_nat :: "nat \<Rightarrow> string" where
  "show_nat n =
     (if n < 10 then [char_of (48 + n)]
      else show_nat (n div 10) @ [char_of (48 + n mod 10)])"

declare show_nat.simps [simp del]

definition show_int :: "int \<Rightarrow> string" where
  "show_int i = (if i < 0 then ''-'' @ show_nat (nat (- i)) else show_nat (nat i))"

subsection \<open>The schema model\<close>

text \<open>
  Modelled from the spec: the modules \<^verbatim>\<open>ProtoFile\<close> and \<^verbatim>\<open>FieldAnnotation\<close> that the
  sources import are missing. The class \<^verbatim>\<open>ProtoFile\<close> is the spec's SchemaFile: an origin
  and an ordered sequence of messages; a message has a name and an ordered sequence of
  fields; a field has a name, a type kind and its annotations; the one known annotation
  is the restrict annotation, which carries its constraint expression.
\<close>

datatype FieldKind =
  KInteger | KFloat | KString | KBytes | KMessageReference | KRepeated FieldKind

datatype Annotation = RestrictAnnotation string

record Field =
  field_name :: string
  field_kind :: FieldKind
  annotations :: "Annotation list"

record Message =
  message_name :: string
  message_fields :: "Field list"

record ProtoFile =
  origin :: string
  messages :: "Message list"

text \<open>
  A Python object as \<^verbatim>\<open>generateValidator\<close> may receive it: an instance of \<^verbatim>\<open>ProtoFile\<close>,
  or an instance of any other class, of which the code reads only
  \<^verbatim>\<open>__class__.__name__\<close> (\<^verbatim>\<open>None\<close> is \<open>Instance ''NoneType''\<close>).
\<close>

datatype pyobj = ProtoFileObj ProtoFile | Instance string

fun isinstance_ProtoFile :: "pyobj \<Rightarrow> bool" where
  "isinstance_ProtoFile (ProtoFileObj pf) = True"
| "isinstance_ProtoFile (Instance cls) = False"

fun class_name :: "pyobj \<Rightarrow> string" where
  "class_name (ProtoFileObj pf) = ''ProtoFile''"
| "class_name (Instance cls) = cls"

subsection \<open>Exceptions, effects and outcomes\<close>

text \<open>Every \<^verbatim>\<open>raise\<close> in the sources raises a \<^verbatim>\<open>RuntimeError\<close> with a message.\<close>

datatype error = RuntimeError string

text \<open>
  The two classes. Their instances have no attributes, so an instance is modelled by its
  class.
\<close>

datatype generator = Generator | CppGenerator

text \<open>
  The events of a run: a line printed on standard output, and the calls that the driver
  makes to the parser, to the registry and to a generator.
\<close>

datatype event =
  Stdout string
| Call_fromFile string
| Call_select string
| Call_generateValidator generator

type_synonym trace = "event list"

text \<open>How the process ends: \<^verbatim>\<open>sys.exit(n)\<close> or the end of the script (status 0), or an
  exception that nothing catches.\<close>

datatype outcome = Exit nat | Uncaught error

text \<open>
  The spec's GeneratedSource is a sequence of textual units. A method that returns
  \<^verbatim>\<open>None\<close> returns no GeneratedSource: \<open>None\<close>.
\<close>

type_synonym GeneratedSource = "string list"

subsection \<open>Generator.py\<close>

definition Generator_generateValidator ::
  "pyobj \<Rightarrow> trace \<Rightarrow> (error + GeneratedSource option) \<times> trace" where
  "Generator_generateValidator protoFile tr =
     (Inl (RuntimeError
        ''Not implemented - you have to call this function on a sub-class''), tr)"

definition select :: "string \<Rightarrow> error + generator" where
  "select programmingLanguage =
     (let programmingLanguage = lower programmingLanguage in
      if programmingLanguage = ''cpp'' \<or> programmingLanguage = ''c++''
      then Inr CppGenerator
      else Inl (RuntimeError
        (''No generator known for language '' @ quoted programmingLanguage)))"

subsection \<open>CppGenerator.py\<close>

text \<open>
  After the type check the method body is only the comment
  \<^verbatim>\<open># TODO: iterate through all messages and generate the code\<close>, so the method returns
  \<^verbatim>\<open>None\<close> and has no effect.
\<close>

definition CppGenerator_generateValidator ::
  "pyobj \<Rightarrow> trace \<Rightarrow> (error + GeneratedSource option) \<times> trace" where
  "CppGenerator_generateValidator protoFile tr =
     (if \<not> isinstance_ProtoFile protoFile
      then (Inl (RuntimeError
        (''Expected object of type ProtoFile but got '' @ quoted (class_name protoFile))), tr)
      else (Inr None, tr))"

text \<open>The method call \<^verbatim>\<open>gen.generateValidator(protoFile)\<close> dispatches on the class of \<^verbatim>\<open>gen\<close>.\<close>

fun generateValidator ::
  "generator \<Rightarrow> pyobj \<Rightarrow> trace \<Rightarrow> (error + GeneratedSource option) \<times> trace" where
  "generateValidator Generator protoFile tr = Generator_generateValidator protoFile tr"
| "generateValidator CppGenerator protoFile tr = CppGenerator_generateValidator protoFile tr"

subsection \<open>generate-protobuf-validator.py\<close>

definition py_print :: "string \<Rightarrow> trace \<Rightarrow> trace" where
  "py_print s tr = tr @ [Stdout s]"

text \<open>\<^verbatim>\<open>print(gen.__class__)\<close> prints the class with its module.\<close>

fun class_repr :: "generator \<Rightarrow> string" where
  "class_repr Generator = ''<class '' @ [CHR 0x27] @ ''Generator.Generator'' @ [CHR 0x27] @ ''>''"
| "class_repr CppGenerator =
     ''<class '' @ [CHR 0x27] @ ''CppGenerator.CppGenerator'' @ [CHR 0x27] @ ''>''"

text \<open>\<open>file\<close> is the script's \<^verbatim>\<open>__file__\<close>.\<close>

definition printHelp :: "string \<Rightarrow> trace \<Rightarrow> trace" where
  "printHelp file tr =
     py_print [] (py_print (file @ '' <pathToProtoFile>'') (py_print ''Usage:'' tr))"

text \<open>
  The body of the script under \<^verbatim>\<open>if __name__ == "__main__"\<close>. The parser
  \<^verbatim>\<open>ProtoFile.fromFile\<close> and the text \<^verbatim>\<open>str(protoFile)\<close> belong to the missing module
  \<^verbatim>\<open>ProtoFile\<close> and are parameters: \<open>fromFile\<close> returns \<open>None\<close> where the parser returns
  \<^verbatim>\<open>None\<close>. \<open>argv\<close> is \<^verbatim>\<open>sys.argv\<close>, the script's name first.
\<close>

definition main ::
  "(string \<Rightarrow> ProtoFile option) \<Rightarrow> (ProtoFile \<Rightarrow> string) \<Rightarrow> string \<Rightarrow> string list
     \<Rightarrow> trace \<times> outcome" where
  "main fromFile str_ProtoFile file argv =
     (if \<not> length argv = 2 then
        (printHelp file
           (py_print (''[ERROR]: Invalid argument count (''
              @ show_int (int (length argv) - 1) @ '')'') []),
         Exit 1)
      else if lower (argv ! 1) = ''-h'' \<or> lower (argv ! 1) = ''--help'' then
        (printHelp file [], Exit 0)
      else
        (let fileName = argv ! 1;
             tr1 = [Call_fromFile fileName]
         in case fromFile fileName of
              None \<Rightarrow> (py_print ''[ERROR]: Failed at parsing ProtoFile!'' tr1, Exit 1)
            | Some protoFile \<Rightarrow>
                (let tr2 = py_print (str_ProtoFile protoFile) tr1;
                     tr3 = tr2 @ [Call_select ''cpp'']
                 in case select ''cpp'' of
                      Inl e \<Rightarrow> (tr3, Uncaught e)
                    | Inr gen \<Rightarrow>
                        (let tr4 = py_print (class_repr gen) tr3;
                             tr5 = tr4 @ [Call_generateValidator gen]
                         in case generateValidator gen (ProtoFileObj protoFile) tr5 of
                              (Inl e, tr6) \<Rightarrow> (tr6, Uncaught e)
                            | (Inr r, tr6) \<Rightarrow> (tr6, Exit 0)))))"

subsection \<open>An example schema\<close>

text \<open>
  The schema of the spec's end-to-end example: one message \<^verbatim>\<open>User\<close> with the field
  \<^verbatim>\<open>age\<close> (an integer restricted to 0..150) and the field \<^verbatim>\<open>name\<close> (a string without
  annotation).
\<close>

definition user_schema :: ProtoFile where
  "user_schema =
     \<lparr>origin = ''user.proto'',
      messages =
        [\<lparr>message_name = ''User'',
          message_fields =
            [\<lparr>field_name = ''age'', field_kind = KInteger,
              annotations = [RestrictAnnotation ''min=0,max=150'']\<rparr>,
             \<lparr>field_name = ''name'', field_kind = KString, annotations = []\<rparr>]\<rparr>]\<rparr>"

section \<open>Properties\<close>

subsection \<open>Helper lemmas\<close>

lemma lower_char_idem: "lower_char (lower_char c) = lower_char c"
  by (simp add: lower_char_def Let_def)

lemma lower_idem: "lower (lower s) = lower s"
  by (simp add: lower_def lower_char_idem)

lemma sublist_quoted: "sublist s (a @ quoted s)"
  unfolding quoted_def sublist_def
  by (rule exI[of _ "a @ [CHR 0x22]"], rule exI[of _ "[CHR 0x22]"]) simp

subsection \<open>The registry: \<^verbatim>\<open>Generator.select\<close>\<close>

text \<open>
  C2, as the spec states it, fails. The message is formatted from the variable
  \<^verbatim>\<open>programmingLanguage\<close> after it has been overwritten with its lower-case form, so for
  \<^verbatim>\<open>"Java"\<close>, which names no registered language, the message is
  \<^verbatim>\<open>No generator known for language "java"\<close> and does not contain \<^verbatim>\<open>Java\<close>.
\<close>

theorem select_original_case_counterexample:
  "lower ''Java'' \<noteq> ''cpp'' \<and> lower ''Java'' \<noteq> ''c++'' \<and>
   select ''Java'' =
     Inl (RuntimeError (''No generator known for language '' @ quoted ''java'')) \<and>
   \<not> sublist ''Java'' (''No generator known for language '' @ quoted ''java'')"
  by code_simp

text \<open>
  C2, amended. For every string \<open>s\<close> whose lower-case form is neither \<^verbatim>\<open>cpp\<close> nor
  \<^verbatim>\<open>c++\<close>, \<^verbatim>\<open>Generator.select(s)\<close> raises the error for an unknown language (a
  \<^verbatim>\<open>RuntimeError\<close>), whose message contains the lower-case form of \<open>s\<close> between double
  quotes. For \<^verbatim>\<open>JAV\<close> followed by the capital E with acute accent (code point 0xC9) the
  message holds \<^verbatim>\<open>jav\<close> followed by the small e with acute accent (0xE9).
\<close>

theorem select_unknown_language:
  assumes "lower s \<noteq> ''cpp''" and "lower s \<noteq> ''c++''"
  shows "select s =
           Inl (RuntimeError (''No generator known for language '' @ quoted (lower s))) \<and>
         sublist (lower s) (''No generator known for language '' @ quoted (lower s))"
proof
  from assms show "select s =
      Inl (RuntimeError (''No generator known for language '' @ quoted (lower s)))"
    by (simp add: select_def)
  show "sublist (lower s) (''No generator known for language '' @ quoted (lower s))"
    by (rule sublist_quoted)
qed

theorem select_unknown_language_witness:
  "lower ''Java'' \<noteq> ''cpp'' \<and> lower ''Java'' \<noteq> ''c++'' \<and>
   select ''Java'' =
     Inl (RuntimeError (''No generator known for language '' @ quoted (lower ''Java''))) \<and>
   sublist (lower ''Java'')
     (''No generator known for language '' @ quoted (lower ''Java'')) \<and>
   lower (''JAV'' @ [CHR 0xC9]) = ''jav'' @ [CHR 0xE9] \<and>
   select (''JAV'' @ [CHR 0xC9]) =
     Inl (RuntimeError (''No generator known for language '' @ quoted (''jav'' @ [CHR 0xE9]))) \<and>
   sublist (''jav'' @ [CHR 0xE9])
     (''No generator known for language '' @ quoted (''jav'' @ [CHR 0xE9]))"
proof -
  have h1: "lower ''Java'' \<noteq> ''cpp''" by code_simp
  have h2: "lower ''Java'' \<noteq> ''c++''" by code_simp
  have e: "lower (''JAV'' @ [CHR 0xC9]) = ''jav'' @ [CHR 0xE9]" by code_simp
  have h3: "lower (''JAV'' @ [CHR 0xC9]) \<noteq> ''cpp''" by code_simp
  have h4: "lower (''JAV'' @ [CHR 0xC9]) \<noteq> ''c++''" by code_simp
  from select_unknown_language [OF h1 h2] select_unknown_language [OF h3 h4] h1 h2 e
  show ?thesis by simp
qed

text \<open>
  C3. \<^verbatim>\<open>Generator.select\<close> is case-insensitive: for every string \<open>s\<close>, \<^verbatim>\<open>select(s)\<close>
  returns the same generator or raises the same error as \<^verbatim>\<open>select(s.lower())\<close>, and
  \<^verbatim>\<open>select("CPP")\<close>, \<^verbatim>\<open>select("cpp")\<close> and \<^verbatim>\<open>select("C++")\<close> all return an instance of
  \<^verbatim>\<open>CppGenerator\<close>. Two strings with the same lower-case form are treated alike, such as
  the capital and the small e with acute accent (code points 0xC9 and 0xE9).
\<close>

theorem select_case_insensitive:
  "select s = select (lower s) \<and>
   select ''CPP'' = Inr CppGenerator \<and>
   select ''cpp'' = Inr CppGenerator \<and>
   select ''C++'' = Inr CppGenerator \<and>
   select [CHR 0xC9] = select [CHR 0xE9]"
proof -
  have "select s = select (lower s)"
    by (simp add: select_def lower_idem)
  moreover have "select ''CPP'' = Inr CppGenerator" by code_simp
  moreover have "select ''cpp'' = Inr CppGenerator" by code_simp
  moreover have "select ''C++'' = Inr CppGenerator" by code_simp
  moreover have "select [CHR 0xC9] = select [CHR 0xE9]" by code_simp
  ultimately show ?thesis by simp
qed

text \<open>
  C6. \<^verbatim>\<open>Generator.select("java")\<close> raises the error for an unknown language (a
  \<^verbatim>\<open>RuntimeError\<close>), and its message contains \<^verbatim>\<open>java\<close>.
\<close>

theorem select_java:
  "select ''java'' =
     Inl (RuntimeError (''No generator known for language '' @ quoted ''java'')) \<and>
   sublist ''java'' (''No generator known for language '' @ quoted ''java'')"
  by code_simp

subsection \<open>The generators: \<^verbatim>\<open>generateValidator\<close>\<close>

text \<open>
  C9. Calling \<^verbatim>\<open>generateValidator\<close> on the base class \<^verbatim>\<open>Generator\<close> raises a
  \<^verbatim>\<open>RuntimeError\<close> for every argument, a \<^verbatim>\<open>ProtoFile\<close> instance included, and has no
  other effect.
\<close>

theorem Generator_generateValidator_raises:
  "generateValidator Generator protoFile tr =
     (Inl (RuntimeError ''Not implemented - you have to call this function on a sub-class''), tr)"
  by (simp add: Generator_generateValidator_def)

text \<open>
  C1. The spec asks for one emitted validation unit for every message of the schema.
  On the example schema, which has the message \<^verbatim>\<open>User\<close>, the C++ generator returns
  \<^verbatim>\<open>None\<close> and prints nothing, as it does on every \<^verbatim>\<open>ProtoFile\<close>: the emission is the
  \<^verbatim>\<open>TODO\<close> of the method body.
\<close>

theorem CppGenerator_generateValidator_emits_nothing:
  "messages user_schema \<noteq> [] \<and>
   generateValidator CppGenerator (ProtoFileObj user_schema) [] = (Inr None, []) \<and>
   generateValidator CppGenerator (ProtoFileObj pf) tr = (Inr None, tr)"
  by (simp add: user_schema_def CppGenerator_generateValidator_def)

text \<open>
  C4. The C++ generator's \<^verbatim>\<open>generateValidator\<close> raises the error for an invalid input (a
  \<^verbatim>\<open>RuntimeError\<close>) if and only if its argument is not an instance of \<^verbatim>\<open>ProtoFile\<close>; when
  it raises, nothing has been printed and nothing is returned: the result is the
  exception and the trace is the one the call started with.
\<close>

theorem CppGenerator_generateValidator_invalid_input:
  "((\<exists>msg. fst (generateValidator CppGenerator x tr) = Inl (RuntimeError msg))
      \<longleftrightarrow> \<not> isinstance_ProtoFile x) \<and>
   (\<not> isinstance_ProtoFile x \<longrightarrow>
      generateValidator CppGenerator x tr =
        (Inl (RuntimeError
           (''Expected object of type ProtoFile but got '' @ quoted (class_name x))), tr))"
  by (simp add: CppGenerator_generateValidator_def)

theorem CppGenerator_generateValidator_invalid_input_witness:
  "\<not> isinstance_ProtoFile (Instance ''NoneType'') \<and>
   generateValidator CppGenerator (Instance ''NoneType'') [Stdout ''x''] =
     (Inl (RuntimeError
        (''Expected object of type ProtoFile but got '' @ quoted ''NoneType'')),
      [Stdout ''x'']) \<and>
   isinstance_ProtoFile (ProtoFileObj user_schema) \<and>
   \<not> (\<exists>msg. fst (generateValidator CppGenerator (ProtoFileObj user_schema) [Stdout ''x''])
          = Inl (RuntimeError msg))"
  using CppGenerator_generateValidator_invalid_input [of "Instance ''NoneType''" "[Stdout ''x'']"]
    CppGenerator_generateValidator_invalid_input [of "ProtoFileObj user_schema" "[Stdout ''x'']"]
  by simp

subsection \<open>The driver\<close>

text \<open>
  C8. When the number of command-line arguments is not one (\<^verbatim>\<open>sys.argv\<close> has not two
  elements), the driver prints an error message with the number of arguments, then the
  usage, and exits with status 1.
\<close>

theorem main_wrong_argument_count:
  assumes "length argv \<noteq> 2"
  shows "main fromFile str_ProtoFile file argv =
           ([Stdout (''[ERROR]: Invalid argument count (''
               @ show_int (int (length argv) - 1) @ '')''),
             Stdout ''Usage:'', Stdout (file @ '' <pathToProtoFile>''), Stdout []],
            Exit 1)"
  using assms by (simp add: main_def printHelp_def py_print_def)

theorem main_wrong_argument_count_witness:
  "main (\<lambda>fileName. None) (\<lambda>protoFile. ''ProtoFile'') ''gen.py''
     [''gen.py'', ''a.proto'', ''b.proto''] =
     ([Stdout ''[ERROR]: Invalid argument count (2)'',
       Stdout ''Usage:'', Stdout ''gen.py <pathToProtoFile>'', Stdout []],
      Exit 1)"
proof -
  have h: "length [''gen.py'', ''a.proto'', ''b.proto''] \<noteq> 2" by simp
  have d: "show_int (int (length [''gen.py'', ''a.proto'', ''b.proto'']) - 1) = ''2''"
    by code_simp
  from main_wrong_argument_count
    [OF h, of "\<lambda>fileName. None" "\<lambda>protoFile. ''ProtoFile''" "''gen.py''"]
  show ?thesis unfolding d by simp
qed

text \<open>
  C10. The help flag is matched without regard to case: when the single argument has the
  lower-case form \<^verbatim>\<open>-h\<close> or \<^verbatim>\<open>--help\<close>, the driver prints the usage and exits with
  status 0.
\<close>

theorem main_help_case_insensitive:
  assumes "length argv = 2"
    and "lower (argv ! 1) = ''-h'' \<or> lower (argv ! 1) = ''--help''"
  shows "main fromFile str_ProtoFile file argv =
           ([Stdout ''Usage:'', Stdout (file @ '' <pathToProtoFile>''), Stdout []], Exit 0)"
  using assms by (auto simp add: main_def printHelp_def py_print_def)

theorem main_help_case_insensitive_witness:
  "main (\<lambda>fileName. None) (\<lambda>protoFile. ''ProtoFile'') ''gen.py'' [''gen.py'', ''-H''] =
     ([Stdout ''Usage:'', Stdout ''gen.py <pathToProtoFile>'', Stdout []], Exit 0) \<and>
   main (\<lambda>fileName. None) (\<lambda>protoFile. ''ProtoFile'') ''gen.py'' [''gen.py'', ''--HELP''] =
     ([Stdout ''Usage:'', Stdout ''gen.py <pathToProtoFile>'', Stdout []], Exit 0)"
proof -
  have l1: "length [''gen.py'', ''-H''] = 2" and l2: "length [''gen.py'', ''--HELP''] = 2"
    by simp_all
  have h1: "lower ([''gen.py'', ''-H''] ! 1) = ''-h'' \<or>
            lower ([''gen.py'', ''-H''] ! 1) = ''--help''"
    by code_simp
  have h2: "lower ([''gen.py'', ''--HELP''] ! 1) = ''-h'' \<or>
            lower ([''gen.py'', ''--HELP''] ! 1) = ''--help''"
    by code_simp
  from main_help_case_insensitive [OF l1 h1] main_help_case_insensitive [OF l2 h2]
  show ?thesis by simp
qed

text \<open>
  C7. When the parser returns no \<^verbatim>\<open>ProtoFile\<close> for the file named by the single
  argument, the driver prints an error message and exits with status 1; after the call
  of the parser it neither selects a generator nor calls \<^verbatim>\<open>generateValidator\<close>.
\<close>

theorem main_parse_failure:
  assumes "length argv = 2"
    and "lower (argv ! 1) \<noteq> ''-h''" and "lower (argv ! 1) \<noteq> ''--help''"
    and "fromFile (argv ! 1) = None"
  shows "main fromFile str_ProtoFile file argv =
           ([Call_fromFile (argv ! 1), Stdout ''[ERROR]: Failed at parsing ProtoFile!''],
            Exit 1) \<and>
         Call_select lang \<notin> set (fst (main fromFile str_ProtoFile file argv)) \<and>
         Call_generateValidator gen \<notin> set (fst (main fromFile str_ProtoFile file argv))"
  using assms by (simp add: main_def py_print_def)

theorem main_parse_failure_witness:
  "main (\<lambda>fileName. None) (\<lambda>protoFile. ''ProtoFile'') ''gen.py'' [''gen.py'', ''bad.proto''] =
     ([Call_fromFile ''bad.proto'', Stdout ''[ERROR]: Failed at parsing ProtoFile!''],
      Exit 1) \<and>
   Call_select ''cpp'' \<notin> set (fst (main (\<lambda>fileName. None) (\<lambda>protoFile. ''ProtoFile'')
     ''gen.py'' [''gen.py'', ''bad.proto''])) \<and>
   Call_generateValidator CppGenerator \<notin> set (fst (main (\<lambda>fileName. None)
     (\<lambda>protoFile. ''ProtoFile'') ''gen.py'' [''gen.py'', ''bad.proto'']))"
proof -
  have h1: "length [''gen.py'', ''bad.proto''] = 2" by simp
  have h2: "lower ([''gen.py'', ''bad.proto''] ! 1) \<noteq> ''-h''" by code_simp
  have h3: "lower ([''gen.py'', ''bad.proto''] ! 1) \<noteq> ''--help''" by code_simp
  have h4: "(\<lambda>fileName. None :: ProtoFile option) ([''gen.py'', ''bad.proto''] ! 1) = None"
    by simp
  from main_parse_failure
    [of "[''gen.py'', ''bad.proto'']" "\<lambda>fileName. None" "\<lambda>protoFile. ''ProtoFile''"
        "''gen.py''" "''cpp''" CppGenerator, OF h1 h2 h3 h4]
  show ?thesis by simp
qed

end
